theory Spec2Isabelle
  imports Complex_Main "HOL-Library.AList" "HOL-Library.Monad_Syntax"
begin

section \<open>The Kozai driver of examples/kozai/problem.c\<close>

text \<open>
  The only source file is the driver \<^verbatim>\<open>examples/kozai/problem.c\<close>. Its \<^verbatim>\<open>main\<close> builds a
  three-body system, attaches the spin force, and then runs a loop that writes one
  record per iteration and calls \<^verbatim>\<open>reb_integrate\<close>.

  Conventions of the embedding:
  \<^item> a C \<^verbatim>\<open>double\<close> is a \<^typ>\<open>real\<close> and \<^verbatim>\<open>M_PI\<close> is \<^term>\<open>pi\<close>: arithmetic is exact, rounding
    is not modelled;
  \<^item> the loop counter \<^verbatim>\<open>int i\<close> stays within \<open>0 .. 1000000\<close> and is a \<^typ>\<open>nat\<close>;
  \<^item> the simulation object \<^verbatim>\<open>r\<close>, the extras object \<^verbatim>\<open>rebx\<close> (reachable from \<^verbatim>\<open>r->extras\<close>)
    and the output file \<^verbatim>\<open>f\<close> are passed explicitly as state;
  \<^item> dereferencing a \<^verbatim>\<open>NULL\<close> returned by \<^verbatim>\<open>rebx_get_param\<close> and reading a particle slot
    that does not exist are faults of the model (an \<open>Inl\<close> result);
  \<^item> \<^verbatim>\<open>fopen\<close> is taken to succeed (the source does not test its result), and the
    \<^verbatim>\<open>heartbeat\<close> callback, whose body discards the only value it computes, is left out.
\<close>

subsection \<open>Data declared in rebound.h and reboundx.h\<close>

text \<open>
  \<^verbatim>\<open>struct reb_particle\<close>: Cartesian state, mass, radius and the head \<^verbatim>\<open>ap\<close> of the
  particle's parameter list. The parameter list is an association list from the
  parameter name to its \<^verbatim>\<open>double\<close> value.
\<close>

type_synonym rebx_param_list = "(string \<times> real) list"

record reb_particle =
  x :: real
  y :: real
  z :: real
  vx :: real
  vy :: real
  vz :: real
  m :: real
  r :: real
  ap :: rebx_param_list

text \<open>\<^verbatim>\<open>struct reb_vec3d\<close>; its fields \<^verbatim>\<open>x\<close>, \<^verbatim>\<open>y\<close>, \<^verbatim>\<open>z\<close> carry a prefix here because the
  particle record already owns these names.\<close>

record reb_vec3d =
  vec_x :: real
  vec_y :: real
  vec_z :: real

text \<open>\<^verbatim>\<open>struct reb_orbit\<close>, restricted to the elements the driver reads. The field
  \<^verbatim>\<open>inc\<close> is called \<open>inc_orbit\<close> because \<open>inc\<close> is a constant of HOL.\<close>

record reb_orbit =
  a :: real
  e :: real
  inc_orbit :: real
  Omega :: real
  pomega :: real
  f :: real

text \<open>The type of \<^verbatim>\<open>r->integrator\<close>. Only \<^verbatim>\<open>REB_INTEGRATOR_IAS15\<close> occurs in problem.c;
  the enum is declared in \<^verbatim>\<open>rebound.h\<close>, which is not part of the sources, and the other
  constructors stand for three of the fixed-step schemes it offers.\<close>

datatype reb_integrator =
    REB_INTEGRATOR_IAS15
  | REB_INTEGRATOR_WHFAST
  | REB_INTEGRATOR_SEI
  | REB_INTEGRATOR_LEAPFROG

text \<open>Modelled from the spec: the order and the step control of each scheme are not in
  the sources. Section 4.5 of the specification asks for an adaptive scheme of order at
  least 7; IAS15 is rebound's adaptive scheme of order 15 (the header comment of
  problem.c: "The integrator automatically adjusts the timestep"), the other three are
  fixed-step schemes of order 2.\<close>

fun integrator_order :: "reb_integrator \<Rightarrow> nat" where
  "integrator_order REB_INTEGRATOR_IAS15 = 15"
| "integrator_order REB_INTEGRATOR_WHFAST = 2"
| "integrator_order REB_INTEGRATOR_SEI = 2"
| "integrator_order REB_INTEGRATOR_LEAPFROG = 2"

fun integrator_adaptive :: "reb_integrator \<Rightarrow> bool" where
  "integrator_adaptive REB_INTEGRATOR_IAS15 = True"
| "integrator_adaptive REB_INTEGRATOR_WHFAST = False"
| "integrator_adaptive REB_INTEGRATOR_SEI = False"
| "integrator_adaptive REB_INTEGRATOR_LEAPFROG = False"

text \<open>\<^verbatim>\<open>struct rebx_extras\<close>: the registered forces, in registration order, and the
  state vector of the spin ODE once \<^verbatim>\<open>rebx_spin_initialize_ode\<close> has built it.\<close>

record rebx_extras =
  additional_forces :: "string list"
  spin_ode :: "real list option"

text \<open>\<^verbatim>\<open>struct reb_simulation\<close>, restricted to what the driver touches.\<close>

record reb_simulation =
  t :: real
  dt :: real
  G :: real
  integrator :: reb_integrator
  particles :: "reb_particle list"
  extras :: "rebx_extras option"

subsection \<open>Library routines whose code is not part of the sources\<close>

text \<open>
  The numerical routines of rebound and reboundx that the driver calls are parameters of
  the model: nothing is known about them except their type. The contracts that some
  results need are stated further down as predicates on this record.
\<close>

record externals =
  reb_particle_from_fmt :: "reb_simulation \<Rightarrow> (string \<times> real) list \<Rightarrow> reb_particle"
  rebx_set_time_lag :: "reb_simulation \<Rightarrow> nat \<Rightarrow> real \<Rightarrow> reb_simulation"
  reb_move_to_com :: "reb_simulation \<Rightarrow> reb_simulation"
  align_simulation :: "reb_simulation \<Rightarrow> reb_simulation"
  reb_tools_particle_to_orbit :: "real \<Rightarrow> reb_particle \<Rightarrow> reb_particle \<Rightarrow> reb_orbit"
  reb_get_com_of_pair :: "reb_particle \<Rightarrow> reb_particle \<Rightarrow> reb_particle"
  reb_integrate :: "reb_simulation \<Rightarrow> real \<Rightarrow> reb_simulation"

subsection \<open>The state store and the parameter interface\<close>

text \<open>Modelled from the spec: \<^verbatim>\<open>reb_create_simulation\<close> is missing. The state store and
  the force registry start empty (section 3, "populated before the first integration
  call"); the clock starts at 0, and the gravitational constant 1 and step 0.001 are
  rebound's defaults, overwritten or unused by the driver.\<close>

definition reb_create_simulation :: reb_simulation where
  "reb_create_simulation =
     \<lparr> t = 0, dt = 0.001, G = 1, integrator = REB_INTEGRATOR_IAS15,
       particles = [], extras = None \<rparr>"

text \<open>The C initialiser \<^verbatim>\<open>struct reb_particle p = {0}\<close>.\<close>

definition zero_particle :: reb_particle where
  "zero_particle =
     \<lparr> x = 0, y = 0, z = 0, vx = 0, vy = 0, vz = 0, m = 0, r = 0, ap = [] \<rparr>"

text \<open>Modelled from the spec: \<^verbatim>\<open>reb_add\<close> is missing. Section 4.1: \<open>addParticle\<close> stores
  the values under the next index; indices are stable.\<close>

definition reb_add :: "reb_simulation \<Rightarrow> reb_particle \<Rightarrow> reb_simulation" where
  "reb_add sim pt = sim\<lparr> particles := particles sim @ [pt] \<rparr>"

text \<open>Splitting a string at a separator character.\<close>

fun split_on :: "char \<Rightarrow> string \<Rightarrow> string list" where
  "split_on sep [] = [[]]"
| "split_on sep (c # cs) =
     (if c = sep then [] # split_on sep cs
      else (case split_on sep cs of
              [] \<Rightarrow> [[c]]
            | w # ws \<Rightarrow> (c # w) # ws))"

text \<open>Modelled from the spec: \<^verbatim>\<open>reb_add_fmt\<close> is missing. Section 6: a particle is
  constructed from named orbital elements and converted before insertion. The format
  string lists the names separated by blanks, and the variadic arguments follow in the
  same order; the conversion itself is the library routine.\<close>

definition reb_fmt_args :: "string \<Rightarrow> real list \<Rightarrow> (string \<times> real) list" where
  "reb_fmt_args fmt args = zip (split_on CHR '' '' fmt) args"

definition reb_add_fmt ::
  "externals \<Rightarrow> reb_simulation \<Rightarrow> string \<Rightarrow> real list \<Rightarrow> reb_simulation" where
  "reb_add_fmt env sim fmt args =
     reb_add sim (reb_particle_from_fmt env sim (reb_fmt_args fmt args))"

text \<open>Modelled from the spec: \<^verbatim>\<open>rebx_attach\<close>, \<^verbatim>\<open>rebx_load_force\<close> and \<^verbatim>\<open>rebx_add_force\<close>
  are missing. Section 4.3: \<open>register\<close> appends to an ordered list. A loaded force is
  known by its name.\<close>

definition rebx_attach :: "reb_simulation \<Rightarrow> reb_simulation" where
  "rebx_attach sim = sim\<lparr> extras := Some \<lparr> additional_forces = [], spin_ode = None \<rparr> \<rparr>"

definition rebx_load_force :: "string \<Rightarrow> string" where
  "rebx_load_force name = name"

definition rebx_add_force :: "reb_simulation \<Rightarrow> string \<Rightarrow> reb_simulation" where
  "rebx_add_force sim effect =
     (case extras sim of
        None \<Rightarrow> sim
      | Some rebx \<Rightarrow>
          sim\<lparr> extras := Some (rebx\<lparr> additional_forces := additional_forces rebx @ [effect] \<rparr>) \<rparr>)"

text \<open>Modelled from the spec: \<^verbatim>\<open>rebx_set_param_double\<close> and \<^verbatim>\<open>rebx_get_param\<close> are
  missing. Sections 3, 4.1 and 6: parameters are string-keyed, one entry per particle
  and key; a get of an unknown key gives "not found" (\<^verbatim>\<open>NULL\<close> in C, \<open>None\<close> here), not a
  default. The particle is addressed by its index in \<^verbatim>\<open>r->particles\<close>; the driver only
  uses indices of particles it has added, and an index outside the array changes
  nothing in the model.\<close>

definition rebx_get_param :: "rebx_param_list \<Rightarrow> string \<Rightarrow> real option" where
  "rebx_get_param params key = map_of params key"

definition rebx_set_param_double ::
  "reb_simulation \<Rightarrow> nat \<Rightarrow> string \<Rightarrow> real \<Rightarrow> reb_simulation" where
  "rebx_set_param_double sim idx key val =
     (if idx < length (particles sim)
      then sim\<lparr> particles := (particles sim)
                  [idx := (particles sim ! idx)
                            \<lparr> ap := AList.update key val (ap (particles sim ! idx)) \<rparr>] \<rparr>
      else sim)"

text \<open>The three spin components of a particle, if all of them are set.\<close>

definition spin_of :: "reb_particle \<Rightarrow> (real \<times> real \<times> real) option" where
  "spin_of pt =
     do {
       sx \<leftarrow> rebx_get_param (ap pt) ''spin_sx'';
       sy \<leftarrow> rebx_get_param (ap pt) ''spin_sy'';
       sz \<leftarrow> rebx_get_param (ap pt) ''spin_sz'';
       Some (sx, sy, sz)
     }"

text \<open>Modelled from the spec: \<^verbatim>\<open>rebx_spin_initialize_ode\<close> is missing. Section 4.4:
  the coupler puts every auxiliary variable of the module into one flat vector, each
  exactly once, in a fixed order. The vector holds the three spin components of every
  particle that has them, in particle order.\<close>

definition spin_vector :: "reb_particle list \<Rightarrow> real list" where
  "spin_vector pts =
     concat (map (\<lambda>pt. case spin_of pt of
                          None \<Rightarrow> []
                        | Some (sx, sy, sz) \<Rightarrow> [sx, sy, sz]) pts)"

definition rebx_spin_initialize_ode :: "reb_simulation \<Rightarrow> string \<Rightarrow> reb_simulation" where
  "rebx_spin_initialize_ode sim effect =
     (case extras sim of
        None \<Rightarrow> sim
      | Some rebx \<Rightarrow>
          sim\<lparr> extras := Some (rebx\<lparr> spin_ode := Some (spin_vector (particles sim)) \<rparr>) \<rparr>)"

subsection \<open>The driver: constants of \<^verbatim>\<open>main\<close>\<close>

text \<open>Each definition is the initialiser of the C variable of the same name; a literal
  such as \<^verbatim>\<open>9.55e-4\<close> is written \<open>9.55 / 10 ^ 4\<close>.\<close>

definition tmax :: real where
  "tmax = 10 ^ 5 * 2 * pi"

definition star :: reb_particle where
  "star = zero_particle\<lparr> m := 1.1, r := 0.00465 \<rparr>"

definition planet_m :: real where
  "planet_m = 7.8 * (9.55 / 10 ^ 4)"

definition planet_r :: real where
  "planet_r = 1 * (4.676 / 10 ^ 4)"

definition planet_a :: real where
  "planet_a = 5"

definition planet_e :: real where
  "planet_e = 0.1"

definition planet_omega :: real where
  "planet_omega = 45 * (pi / 180)"

definition perturber_inc :: real where
  "perturber_inc = 85.6 * (pi / 180)"

definition perturber_mass :: real where
  "perturber_mass = 1.1"

definition perturber_a :: real where
  "perturber_a = 1000"

definition perturber_e :: real where
  "perturber_e = 0.0"

definition solar_spin_period :: real where
  "solar_spin_period = 20 * 2 * pi / 365"

definition solar_spin :: real where
  "solar_spin = (2 * pi) / solar_spin_period"

definition solar_k2 :: real where
  "solar_k2 = 0.028"

definition solar_tau :: real where
  "solar_tau = 0.2 / solar_k2 * (2 * pi / (3.154 * 10 ^ 7))"

definition spin_period_p :: real where
  "spin_period_p = (10 / 24) * 2 * pi / 365"

definition spin_p :: real where
  "spin_p = (2 * pi) / spin_period_p"

definition planet_k2 :: real where
  "planet_k2 = 0.51"

definition planet_tau :: real where
  "planet_tau = 0.02 / planet_k2 * (2 * pi / (3.154 * 10 ^ 7))"

definition theta_1 :: real where
  "theta_1 = 1 * pi / 180"

definition phi_1 :: real where
  "phi_1 = 0 * pi / 180"

subsection \<open>The driver: the setup phase of \<^verbatim>\<open>main\<close>\<close>

text \<open>Lines 21 to 25: create the simulation, set the initial step and the integrator.\<close>

definition main_configure :: reb_simulation where
  "main_configure =
     reb_create_simulation\<lparr> dt := pi * (1 / 10), integrator := REB_INTEGRATOR_IAS15 \<rparr>"

text \<open>Lines 29 to 48: the star, the planet and the perturber, in this order.\<close>

definition planet_elements :: "(string \<times> real) list" where
  "planet_elements =
     reb_fmt_args ''m r a e omega'' [planet_m, planet_r, planet_a, planet_e, planet_omega]"

definition perturber_elements :: "(string \<times> real) list" where
  "perturber_elements =
     reb_fmt_args ''m a e inc'' [perturber_mass, perturber_a, perturber_e, perturber_inc]"

definition main_add_star :: reb_simulation where
  "main_add_star = reb_add main_configure star"

definition main_add_planet :: "externals \<Rightarrow> reb_simulation" where
  "main_add_planet env =
     reb_add_fmt env main_add_star ''m r a e omega''
       [planet_m, planet_r, planet_a, planet_e, planet_omega]"

definition main_add_bodies :: "externals \<Rightarrow> reb_simulation" where
  "main_add_bodies env =
     reb_add_fmt env (main_add_planet env) ''m a e inc''
       [perturber_mass, perturber_a, perturber_e, perturber_inc]"

text \<open>Lines 50 to 53: attach reboundx and register the spin force.\<close>

definition effect :: string where
  "effect = rebx_load_force ''spin''"

definition main_attach :: "externals \<Rightarrow> reb_simulation" where
  "main_attach env = rebx_add_force (rebx_attach (main_add_bodies env)) effect"

text \<open>Lines 59 to 65: the parameters of the star, particle 0.\<close>

definition main_star_params :: "externals \<Rightarrow> reb_simulation" where
  "main_star_params env =
     (let s1 = rebx_set_param_double (main_attach env) 0 ''k2'' solar_k2;
          s2 = rebx_set_param_double s1 0 ''moi'' (0.08 * m star * r star * r star);
          s3 = rebx_set_param_double s2 0 ''spin_sx'' (solar_spin * 0.0);
          s4 = rebx_set_param_double s3 0 ''spin_sy'' (solar_spin * 0.0);
          s5 = rebx_set_param_double s4 0 ''spin_sz'' (solar_spin * 1.0)
      in rebx_set_time_lag env s5 0 solar_tau)"

text \<open>Lines 75 to 81: the parameters of the planet, particle 1.\<close>

definition main_planet_params :: "externals \<Rightarrow> reb_simulation" where
  "main_planet_params env =
     (let s1 = rebx_set_param_double (main_star_params env) 1 ''k2'' planet_k2;
          s2 = rebx_set_param_double s1 1 ''moi'' (0.25 * planet_m * planet_r * planet_r);
          s3 = rebx_set_param_double s2 1 ''spin_sx'' (spin_p * sin theta_1 * sin phi_1);
          s4 = rebx_set_param_double s3 1 ''spin_sy'' (spin_p * sin theta_1 * cos phi_1);
          s5 = rebx_set_param_double s4 1 ''spin_sz'' (spin_p * cos theta_1)
      in rebx_set_time_lag env s5 1 planet_tau)"

text \<open>Lines 83 to 85: centre of mass frame, alignment, and the spin ODE.\<close>

definition main_prepare :: "externals \<Rightarrow> reb_simulation" where
  "main_prepare env =
     rebx_spin_initialize_ode
       (align_simulation env (reb_move_to_com env (main_planet_params env))) effect"

text \<open>The state of the driver: the simulation, and what has been written to the output
  file and to the console, one entry per \<^verbatim>\<open>fprintf\<close> or \<^verbatim>\<open>printf\<close> call: the format string
  and the values passed for its conversions.\<close>

record driver_state =
  simulation :: reb_simulation
  out_file :: "(string \<times> real list) list"
  std_out :: "(string \<times> real list) list"

definition header_format :: string where
  "header_format = ''t,starx,stary,starz,starvx,starvy,starvz,star_sx,star_sy,star_sz,a1,i1,e1,s1x,s1y,s1z,mag1,pom1,Om1,f1,p1x,p1y,p1z,p1vx,p1vy,p1vz,a2,i2,e2,Om2,pom2'' @ [CHR 0x0A]"

definition record_format :: string where
  "record_format = ''%.10f,%.10f,%.10f,%.10f,%.10f,%.10f,%.10f,%.10f,%.10f,%.10f,%.10f,%.10f,%.10f,%.10f,%.10f,%.10f,%.10f,%.10f,%.10f,%.10f,%.10f,%.10f,%.10f,%.10f,%.10f,%.10f,%.10f,%.10f,%.10f,%.10f,%.10f'' @ [CHR 0x0A]"

definition console_format :: string where
  "console_format =
     ''t=%f'' @ [CHR 0x09] @ '' a1=%.6f'' @ [CHR 0x09] @ '' o1=%0.5f'' @ [CHR 0x0A]"

text \<open>Lines 87 and 88: open the output file and write the header line.\<close>

definition main_setup :: "externals \<Rightarrow> driver_state" where
  "main_setup env =
     \<lparr> simulation = main_prepare env, out_file = [(header_format, [])], std_out = [] \<rparr>"

subsection \<open>The driver: one iteration of the loop\<close>

datatype fault = NullPointer | OutOfBounds

text \<open>The local variables of the loop body, lines 91 to 123.\<close>

record loop_locals =
  sun :: reb_particle
  p1 :: reb_particle
  pert :: reb_particle
  star_sx :: real
  star_sy :: real
  star_sz :: real
  sx1 :: real
  sy1 :: real
  sz1 :: real
  o1 :: reb_orbit
  a1 :: real
  Om1 :: real
  i1 :: real
  pom1 :: real
  f1 :: real
  e1 :: real
  s1 :: reb_vec3d
  com :: reb_particle
  o2 :: reb_orbit
  a2 :: real
  Om2 :: real
  i2 :: real
  pom2 :: real
  e2 :: real
  mag1 :: real
  ob1 :: real

text \<open>The six parameter lookups of lines 95 to 101; the pointers are dereferenced
  without a test on lines 111 and 128, so one missing key is a fault.\<close>

definition spin_lookups ::
  "reb_simulation \<Rightarrow> (real \<times> real \<times> real \<times> real \<times> real \<times> real) option" where
  "spin_lookups sim =
     do {
       v_star_sx \<leftarrow> rebx_get_param (ap (particles sim ! 0)) ''spin_sx'';
       v_star_sy \<leftarrow> rebx_get_param (ap (particles sim ! 0)) ''spin_sy'';
       v_star_sz \<leftarrow> rebx_get_param (ap (particles sim ! 0)) ''spin_sz'';
       v_sx1 \<leftarrow> rebx_get_param (ap (particles sim ! 1)) ''spin_sx'';
       v_sy1 \<leftarrow> rebx_get_param (ap (particles sim ! 1)) ''spin_sy'';
       v_sz1 \<leftarrow> rebx_get_param (ap (particles sim ! 1)) ''spin_sz'';
       Some (v_star_sx, v_star_sy, v_star_sz, v_sx1, v_sy1, v_sz1)
     }"

definition main_loop_locals :: "externals \<Rightarrow> reb_simulation \<Rightarrow> fault + loop_locals" where
  "main_loop_locals env sim =
     (if length (particles sim) < 3 then Inl OutOfBounds
      else
        (case spin_lookups sim of
           None \<Rightarrow> Inl NullPointer
         | Some (v_star_sx, v_star_sy, v_star_sz, v_sx1, v_sy1, v_sz1) \<Rightarrow>
             (let v_sun = particles sim ! 0;
                  v_p1 = particles sim ! 1;
                  v_pert = particles sim ! 2;
                  v_o1 = reb_tools_particle_to_orbit env (G sim) v_p1 v_sun;
                  v_s1 = \<lparr> vec_x = v_sx1, vec_y = v_sy1, vec_z = v_sz1 \<rparr>;
                  v_com = reb_get_com_of_pair env (particles sim ! 0) (particles sim ! 1);
                  v_o2 = reb_tools_particle_to_orbit env (G sim) v_pert v_com;
                  v_mag1 = sqrt (vec_x v_s1 * vec_x v_s1 + vec_y v_s1 * vec_y v_s1
                                 + vec_z v_s1 * vec_z v_s1);
                  v_ob1 = arccos (vec_z v_s1 / v_mag1) * (180 / pi)
              in Inr \<lparr> sun = v_sun, p1 = v_p1, pert = v_pert,
                       star_sx = v_star_sx, star_sy = v_star_sy, star_sz = v_star_sz,
                       sx1 = v_sx1, sy1 = v_sy1, sz1 = v_sz1,
                       o1 = v_o1, a1 = a v_o1, Om1 = Omega v_o1, i1 = inc_orbit v_o1,
                       pom1 = pomega v_o1, f1 = f v_o1, e1 = e v_o1,
                       s1 = v_s1, com = v_com,
                       o2 = v_o2, a2 = a v_o2, Om2 = Omega v_o2, i2 = inc_orbit v_o2,
                       pom2 = pomega v_o2, e2 = e v_o2,
                       mag1 = v_mag1, ob1 = v_ob1 \<rparr>)))"

text \<open>The arguments of the \<^verbatim>\<open>fprintf\<close> of line 128, in the order of the call.\<close>

definition record_args :: "reb_simulation \<Rightarrow> loop_locals \<Rightarrow> real list" where
  "record_args sim loc =
     [t sim / (2 * pi),
      x (sun loc), y (sun loc), z (sun loc), vx (sun loc), vy (sun loc), vz (sun loc),
      star_sx loc, star_sy loc, star_sz loc,
      a1 loc, i1 loc, e1 loc,
      vec_x (s1 loc), vec_y (s1 loc), vec_z (s1 loc), mag1 loc,
      pom1 loc, Om1 loc, f1 loc,
      x (p1 loc), y (p1 loc), z (p1 loc), vx (p1 loc), vy (p1 loc), vz (p1 loc),
      a2 loc, i2 loc, e2 loc, Om2 loc, pom2 loc]"

text \<open>Lines 91 to 129: compute the locals, print to the console every 10000th
  iteration, write the record, and integrate to the current time plus \<open>100 * 2 * pi\<close>.\<close>

definition main_loop_body :: "externals \<Rightarrow> nat \<Rightarrow> driver_state \<Rightarrow> fault + driver_state" where
  "main_loop_body env i st =
     (case main_loop_locals env (simulation st) of
        Inl err \<Rightarrow> Inl err
      | Inr loc \<Rightarrow>
          (let st1 = (if i mod 10000 = 0
                      then st\<lparr> std_out := std_out st @
                             [(console_format,
                               [t (simulation st) / (2 * pi), a1 loc, ob1 loc])] \<rparr>
                      else st);
               st2 = st1\<lparr> out_file := out_file st1 @
                             [(record_format, record_args (simulation st1) loc)] \<rparr>
           in Inr (st2\<lparr> simulation :=
                          reb_integrate env (simulation st2)
                            (t (simulation st2) + 100 * 2 * pi) \<rparr>)))"

subsection \<open>The driver: the loop and \<^verbatim>\<open>main\<close>\<close>

text \<open>Line 90: \<^verbatim>\<open>for (int i=0; i<1000000; i++)\<close>. A fault ends the run.\<close>

function main_loop :: "externals \<Rightarrow> nat \<Rightarrow> driver_state \<Rightarrow> fault + driver_state" where
  "main_loop env i st =
     (if i < 1000000
      then (case main_loop_body env i st of
              Inl err \<Rightarrow> Inl err
            | Inr st' \<Rightarrow> main_loop env (i + 1) st')
      else Inr st)"
  by pat_completeness auto
termination
  by (relation "measure (\<lambda>(env, i, st). 1000000 - i)") auto

declare main_loop.simps [simp del]

text \<open>\<^verbatim>\<open>main\<close>: the setup, then the loop from \<open>i = 0\<close>. The two calls that follow the loop,
  \<^verbatim>\<open>rebx_free\<close> and \<^verbatim>\<open>reb_free_simulation\<close>, release memory and change nothing that is
  observed here.\<close>

definition main :: "externals \<Rightarrow> fault + driver_state" where
  "main env = main_loop env 0 (main_setup env)"

subsection \<open>Notions used to state the results\<close>

text \<open>The run as a sequence of states: \<open>main_state_at env k\<close> is the state in which
  iteration \<open>k\<close> starts (for \<open>k = 0\<close> the state the setup leaves), or the fault that
  ended the run before.\<close>

primrec main_state_at :: "externals \<Rightarrow> nat \<Rightarrow> fault + driver_state" where
  "main_state_at env 0 = Inr (main_setup env)"
| "main_state_at env (Suc k) =
     (case main_state_at env k of
        Inl err \<Rightarrow> Inl err
      | Inr st \<Rightarrow> main_loop_body env k st)"

text \<open>The clock at the start of iteration \<open>k\<close>, and the target time that iteration
  passes to \<^verbatim>\<open>reb_integrate\<close> on line 129.\<close>

definition clock_at :: "externals \<Rightarrow> nat \<Rightarrow> real option" where
  "clock_at env k =
     (case main_state_at env k of
        Inl err \<Rightarrow> None
      | Inr st \<Rightarrow> Some (t (simulation st)))"

definition target_at :: "externals \<Rightarrow> nat \<Rightarrow> real option" where
  "target_at env k =
     (case main_state_at env k of
        Inl err \<Rightarrow> None
      | Inr st \<Rightarrow> Some (t (simulation st) + 100 * 2 * pi))"

text \<open>The simulation time that passes between the end of the setup and the end of
  \<^verbatim>\<open>main\<close>; \<open>None\<close> if the run ends in a fault.\<close>

definition time_advanced :: "externals \<Rightarrow> real option" where
  "time_advanced env =
     (case main env of
        Inl err \<Rightarrow> None
      | Inr fin \<Rightarrow> Some (t (simulation fin) - t (simulation (main_setup env))))"

text \<open>The comma-separated fields of a line, without its final newline.\<close>

definition csv_fields :: "string \<Rightarrow> string list" where
  "csv_fields line = split_on CHR '','' (filter (\<lambda>c. c \<noteq> CHR 0x0A) line)"

text \<open>A parameter is found on particle \<open>idx\<close>.\<close>

definition param_found :: "reb_simulation \<Rightarrow> nat \<Rightarrow> string \<Rightarrow> bool" where
  "param_found sim idx key \<longleftrightarrow>
     idx < length (particles sim) \<and> rebx_get_param (ap (particles sim ! idx)) key \<noteq> None"

text \<open>The squared length of a particle's spin vector; a particle without spin
  parameters has spin zero (section 6: "uninitialized auxiliary state defaults to
  zero").\<close>

definition spin_sq :: "reb_particle \<Rightarrow> real" where
  "spin_sq pt =
     (case spin_of pt of
        None \<Rightarrow> 0
      | Some (sx, sy, sz) \<Rightarrow> sx * sx + sy * sy + sz * sz)"

text \<open>The record of an iteration as the claim about the output describes it, column
  by column under the names of the header line: the time in units of \<open>2 * pi\<close>, the
  star's position, velocity and spin, the inner orbit's \<open>a\<close>, inclination and \<open>e\<close>, the
  planet's spin and its length, the inner orbit's angles, the planet's position and
  velocity, and the outer orbit, taken about the centre of mass of star and planet.
  It is written from the claim's words, to be compared with what the loop body
  writes.\<close>

definition record_by_column :: "externals \<Rightarrow> reb_simulation \<Rightarrow> (string \<times> real) list option" where
  "record_by_column env sim =
     do {
       (star_spin_x, star_spin_y, star_spin_z) \<leftarrow> spin_of (particles sim ! 0);
       (planet_spin_x, planet_spin_y, planet_spin_z) \<leftarrow> spin_of (particles sim ! 1);
       let star_pt = particles sim ! 0;
       let planet_pt = particles sim ! 1;
       let perturber_pt = particles sim ! 2;
       let inner = reb_tools_particle_to_orbit env (G sim) planet_pt star_pt;
       let outer = reb_tools_particle_to_orbit env (G sim) perturber_pt
                     (reb_get_com_of_pair env star_pt planet_pt);
       Some [(''t'', t sim / (2 * pi)),
             (''starx'', x star_pt), (''stary'', y star_pt), (''starz'', z star_pt),
             (''starvx'', vx star_pt), (''starvy'', vy star_pt), (''starvz'', vz star_pt),
             (''star_sx'', star_spin_x), (''star_sy'', star_spin_y),
             (''star_sz'', star_spin_z),
             (''a1'', a inner), (''i1'', inc_orbit inner), (''e1'', e inner),
             (''s1x'', planet_spin_x), (''s1y'', planet_spin_y), (''s1z'', planet_spin_z),
             (''mag1'', sqrt (planet_spin_x * planet_spin_x + planet_spin_y * planet_spin_y
                              + planet_spin_z * planet_spin_z)),
             (''pom1'', pomega inner), (''Om1'', Omega inner), (''f1'', f inner),
             (''p1x'', x planet_pt), (''p1y'', y planet_pt), (''p1z'', z planet_pt),
             (''p1vx'', vx planet_pt), (''p1vy'', vy planet_pt), (''p1vz'', vz planet_pt),
             (''a2'', a outer), (''i2'', inc_orbit outer), (''e2'', e outer),
             (''Om2'', Omega outer), (''pom2'', pomega outer)]
     }"

text \<open>The loop body can run: the three particle slots it reads exist and the six
  parameter lookups all give a value.\<close>

definition loop_ready :: "reb_simulation \<Rightarrow> bool" where
  "loop_ready sim \<longleftrightarrow> 3 \<le> length (particles sim) \<and> spin_lookups sim \<noteq> None"

subsection \<open>Contracts of the library routines\<close>

text \<open>A routine retains the store when it keeps the number of particles, every
  parameter entry of every particle (the value may change), and the attached extras
  object. Section 3: a particle's identity is its stable index, and its side-table owns
  its entries for as long as the particle lives.\<close>

definition retains_store :: "(reb_simulation \<Rightarrow> reb_simulation) \<Rightarrow> bool" where
  "retains_store fn \<longleftrightarrow>
     (\<forall>sim. length (particles (fn sim)) = length (particles sim)
        \<and> (\<forall>idx key. param_found sim idx key \<longrightarrow> param_found (fn sim) idx key)
        \<and> (extras sim \<noteq> None \<longrightarrow> extras (fn sim) \<noteq> None))"

definition store_contract :: "externals \<Rightarrow> bool" where
  "store_contract env \<longleftrightarrow>
     (\<forall>idx tau. retains_store (\<lambda>sim. rebx_set_time_lag env sim idx tau))
     \<and> retains_store (reb_move_to_com env)
     \<and> retains_store (align_simulation env)
     \<and> (\<forall>target. retains_store (\<lambda>sim. reb_integrate env sim target))"

text \<open>Section 4.5: the integrator lands exactly on the time the caller asks for.\<close>

definition lands_on_target :: "externals \<Rightarrow> bool" where
  "lands_on_target env \<longleftrightarrow> (\<forall>sim target. t (reb_integrate env sim target) = target)"

text \<open>Section 3: the step size is changed only by the integrator's step-size control;
  the routines called during the setup leave the step and the integrator choice alone.\<close>

definition keeps_step :: "(reb_simulation \<Rightarrow> reb_simulation) \<Rightarrow> bool" where
  "keeps_step fn \<longleftrightarrow>
     (\<forall>sim. dt (fn sim) = dt sim \<and> integrator (fn sim) = integrator sim)"

definition step_contract :: "externals \<Rightarrow> bool" where
  "step_contract env \<longleftrightarrow>
     (\<forall>idx tau. keeps_step (\<lambda>sim. rebx_set_time_lag env sim idx tau))
     \<and> keeps_step (reb_move_to_com env)
     \<and> keeps_step (align_simulation env)"

text \<open>The routines called during the setup keep the length of every spin vector: they
  leave it alone or rotate it.\<close>

definition keeps_spin_length :: "(reb_simulation \<Rightarrow> reb_simulation) \<Rightarrow> bool" where
  "keeps_spin_length fn \<longleftrightarrow>
     (\<forall>sim idx. idx < length (particles sim) \<longrightarrow>
        spin_sq (particles (fn sim) ! idx) = spin_sq (particles sim ! idx))"

definition spin_contract :: "externals \<Rightarrow> bool" where
  "spin_contract env \<longleftrightarrow>
     (\<forall>idx tau. keeps_spin_length (\<lambda>sim. rebx_set_time_lag env sim idx tau))
     \<and> keeps_spin_length (reb_move_to_com env)
     \<and> keeps_spin_length (align_simulation env)"

subsection \<open>Two instances of the library routines\<close>

text \<open>The library reduced to its bookkeeping: conversions return zero, the setup
  routines change nothing, and integration only moves the clock to the target. It meets
  every contract above.\<close>

definition zero_orbit :: reb_orbit where
  "zero_orbit = \<lparr> a = 0, e = 0, inc_orbit = 0, Omega = 0, pomega = 0, f = 0 \<rparr>"

definition clock_externals :: externals where
  "clock_externals =
     \<lparr> reb_particle_from_fmt = (\<lambda>sim args. zero_particle),
       rebx_set_time_lag = (\<lambda>sim idx tau. sim),
       reb_move_to_com = (\<lambda>sim. sim),
       align_simulation = (\<lambda>sim. sim),
       reb_tools_particle_to_orbit = (\<lambda>g pt primary. zero_orbit),
       reb_get_com_of_pair = (\<lambda>pt1 pt2. pt1),
       reb_integrate = (\<lambda>sim target. sim\<lparr> t := target \<rparr>) \<rparr>"

text \<open>The same library with an alignment that rotates every spin vector by a quarter
  turn about the x axis: \<open>(sx, sy, sz)\<close> becomes \<open>(sx, - sz, sy)\<close>.\<close>

definition quarter_turn :: "reb_particle \<Rightarrow> reb_particle" where
  "quarter_turn pt =
     (case spin_of pt of
        None \<Rightarrow> pt
      | Some (sx, sy, sz) \<Rightarrow>
          pt\<lparr> ap := AList.update ''spin_sz'' sy
                      (AList.update ''spin_sy'' (- sz) (ap pt)) \<rparr>)"

definition turning_externals :: externals where
  "turning_externals =
     clock_externals
       \<lparr> align_simulation := (\<lambda>sim. sim\<lparr> particles := map quarter_turn (particles sim) \<rparr>) \<rparr>"

section \<open>Properties of the driver\<close>

subsection \<open>The parameter store\<close>

lemma get_update:
  "rebx_get_param (AList.update key val params) key' =
     (if key' = key then Some val else rebx_get_param params key')"
  by (simp add: rebx_get_param_def update_conv')

lemma set_param_length:
  "length (particles (rebx_set_param_double sim idx key val)) = length (particles sim)"
  by (simp add: rebx_set_param_double_def)

lemma set_param_frame:
  "extras (rebx_set_param_double sim idx key val) = extras sim"
  "dt (rebx_set_param_double sim idx key val) = dt sim"
  "integrator (rebx_set_param_double sim idx key val) = integrator sim"
  "t (rebx_set_param_double sim idx key val) = t sim"
  by (simp_all add: rebx_set_param_double_def)

lemma set_param_get:
  assumes "idx < length (particles sim)"
  shows "rebx_get_param (ap (particles (rebx_set_param_double sim idx key val) ! idx')) key' =
           (if idx' = idx \<and> key' = key then Some val
            else rebx_get_param (ap (particles sim ! idx')) key')"
  using assms by (simp add: rebx_set_param_double_def get_update nth_list_update)

lemma set_param_found:
  "param_found (rebx_set_param_double sim idx key val) idx' key' \<longleftrightarrow>
     (idx' = idx \<and> key' = key \<and> idx < length (particles sim)) \<or> param_found sim idx' key'"
proof (cases "idx < length (particles sim)")
  case True
  then show ?thesis
    by (auto simp add: param_found_def set_param_length set_param_get)
next
  case False
  then show ?thesis
    by (simp add: param_found_def rebx_set_param_double_def)
qed

subsection \<open>The setup phase\<close>

lemma add_bodies_particles:
  "particles (main_add_bodies env) =
     [star, reb_particle_from_fmt env main_add_star planet_elements,
      reb_particle_from_fmt env (main_add_planet env) perturber_elements]"
  by (simp add: main_add_bodies_def main_add_planet_def main_add_star_def reb_add_fmt_def
      reb_add_def main_configure_def reb_create_simulation_def planet_elements_def
      perturber_elements_def)

lemma attach_particles: "particles (main_attach env) = particles (main_add_bodies env)"
  by (simp add: main_attach_def rebx_add_force_def rebx_attach_def)

lemma attach_extras: "extras (main_attach env) \<noteq> None"
  by (simp add: main_attach_def rebx_add_force_def rebx_attach_def)

lemma store_contract_length:
  assumes "store_contract env"
  shows "length (particles (rebx_set_time_lag env sim idx tau)) = length (particles sim)"
    and "length (particles (reb_move_to_com env sim)) = length (particles sim)"
    and "length (particles (align_simulation env sim)) = length (particles sim)"
    and "length (particles (reb_integrate env sim target)) = length (particles sim)"
  using assms by (simp_all add: store_contract_def retains_store_def)

lemma store_contract_found:
  assumes "store_contract env" and "param_found sim i key"
  shows "param_found (rebx_set_time_lag env sim idx tau) i key"
    and "param_found (reb_move_to_com env sim) i key"
    and "param_found (align_simulation env sim) i key"
    and "param_found (reb_integrate env sim target) i key"
  using assms by (simp_all add: store_contract_def retains_store_def)

lemma store_contract_extras:
  assumes "store_contract env" and "extras sim \<noteq> None"
  shows "extras (rebx_set_time_lag env sim idx tau) \<noteq> None"
    and "extras (reb_move_to_com env sim) \<noteq> None"
    and "extras (align_simulation env sim) \<noteq> None"
    and "extras (reb_integrate env sim target) \<noteq> None"
  using assms by (simp_all add: store_contract_def retains_store_def)

lemma attach_length: "length (particles (main_attach env)) = 3"
  by (simp add: attach_particles add_bodies_particles)

lemma star_params_length:
  assumes "store_contract env"
  shows "length (particles (main_star_params env)) = 3"
  by (simp add: main_star_params_def Let_def store_contract_length [OF assms]
      set_param_length attach_length)

lemma set_param_found_same:
  "idx < length (particles sim) \<Longrightarrow> param_found (rebx_set_param_double sim idx key val) idx key"
  by (simp add: set_param_found)

lemma set_param_found_keep:
  "param_found sim idx' key' \<Longrightarrow> param_found (rebx_set_param_double sim idx key val) idx' key'"
  by (simp add: set_param_found)

lemma star_params_found:
  assumes "store_contract env"
  shows "param_found (main_star_params env) 0 ''spin_sx''"
    and "param_found (main_star_params env) 0 ''spin_sy''"
    and "param_found (main_star_params env) 0 ''spin_sz''"
  unfolding main_star_params_def Let_def
  by ((rule store_contract_found [OF assms] set_param_found_same | rule set_param_found_keep)+;
      simp add: set_param_length attach_length)+

lemma star_params_extras:
  assumes "store_contract env"
  shows "extras (main_star_params env) \<noteq> None"
  unfolding main_star_params_def Let_def
  by (intro store_contract_extras [OF assms]) (simp add: set_param_frame attach_extras)

lemma planet_params_length:
  assumes "store_contract env"
  shows "length (particles (main_planet_params env)) = 3"
  by (simp add: main_planet_params_def Let_def store_contract_length [OF assms]
      set_param_length star_params_length [OF assms])

lemma planet_params_found:
  assumes "store_contract env"
  shows "param_found (main_planet_params env) 0 ''spin_sx''"
    and "param_found (main_planet_params env) 0 ''spin_sy''"
    and "param_found (main_planet_params env) 0 ''spin_sz''"
    and "param_found (main_planet_params env) 1 ''spin_sx''"
    and "param_found (main_planet_params env) 1 ''spin_sy''"
    and "param_found (main_planet_params env) 1 ''spin_sz''"
  unfolding main_planet_params_def Let_def
  by ((rule store_contract_found [OF assms] set_param_found_same star_params_found [OF assms]
        | rule set_param_found_keep)+;
      simp add: set_param_length star_params_length [OF assms])+

lemma planet_params_extras:
  assumes "store_contract env"
  shows "extras (main_planet_params env) \<noteq> None"
  unfolding main_planet_params_def Let_def
  by (intro store_contract_extras [OF assms])
     (simp add: set_param_frame star_params_extras [OF assms])

lemma init_ode_particles:
  "particles (rebx_spin_initialize_ode sim eff) = particles sim"
  by (simp add: rebx_spin_initialize_ode_def split: option.splits)

lemma init_ode_found:
  "param_found (rebx_spin_initialize_ode sim eff) idx key = param_found sim idx key"
  by (simp add: param_found_def init_ode_particles)

lemma prepare_length:
  assumes "store_contract env"
  shows "length (particles (main_prepare env)) = 3"
  by (simp add: main_prepare_def init_ode_particles store_contract_length [OF assms]
      planet_params_length [OF assms])

lemma prepare_found:
  assumes "store_contract env"
  shows "param_found (main_prepare env) 0 ''spin_sx''"
    and "param_found (main_prepare env) 0 ''spin_sy''"
    and "param_found (main_prepare env) 0 ''spin_sz''"
    and "param_found (main_prepare env) 1 ''spin_sx''"
    and "param_found (main_prepare env) 1 ''spin_sy''"
    and "param_found (main_prepare env) 1 ''spin_sz''"
  unfolding main_prepare_def init_ode_found
  by (intro store_contract_found [OF assms] planet_params_found [OF assms])+

lemma prepare_ode:
  assumes "store_contract env"
  shows "\<exists>rebx. extras (main_prepare env) = Some rebx
           \<and> spin_ode rebx = Some (spin_vector (particles (main_prepare env)))"
proof -
  have "extras (align_simulation env (reb_move_to_com env (main_planet_params env))) \<noteq> None"
    by (intro store_contract_extras [OF assms] planet_params_extras [OF assms])
  then show ?thesis
    by (auto simp add: main_prepare_def rebx_spin_initialize_ode_def)
qed

lemma spin_lookups_found:
  "loop_ready sim \<longleftrightarrow>
     3 \<le> length (particles sim) \<and>
     (\<forall>idx \<in> {0, 1}. \<forall>key \<in> {''spin_sx'', ''spin_sy'', ''spin_sz''}. param_found sim idx key)"
  by (auto simp add: loop_ready_def spin_lookups_def param_found_def
      split: Option.bind_splits)

lemma prepare_ready:
  assumes "store_contract env"
  shows "loop_ready (main_prepare env)"
  unfolding spin_lookups_found
  using prepare_found [OF assms] prepare_length [OF assms] by simp

subsection \<open>One iteration, and the run as a sequence of states\<close>

lemma locals_ready:
  "(\<exists>loc. main_loop_locals env sim = Inr loc) \<longleftrightarrow> loop_ready sim"
  by (auto simp add: main_loop_locals_def loop_ready_def Let_def split: option.splits)

lemma body_step:
  assumes "main_loop_locals env (simulation st) = Inr loc"
  shows "\<exists>st'. main_loop_body env i st = Inr st'
           \<and> simulation st' =
               reb_integrate env (simulation st) (t (simulation st) + 100 * 2 * pi)
           \<and> out_file st' = out_file st @ [(record_format, record_args (simulation st) loc)]"
  using assms by (simp add: main_loop_body_def Let_def)

lemma integrate_ready:
  assumes "store_contract env" and "loop_ready sim"
  shows "loop_ready (reb_integrate env sim target)"
  using assms(2) unfolding spin_lookups_found
  by (simp add: store_contract_length [OF assms(1)] store_contract_found [OF assms(1)])

lemma state_at_ready:
  assumes "store_contract env"
  shows "\<exists>st. main_state_at env k = Inr st \<and> loop_ready (simulation st)"
proof (induction k)
  case 0
  show ?case
    by (simp add: main_setup_def prepare_ready [OF assms])
next
  case (Suc k)
  then obtain st where st: "main_state_at env k = Inr st" "loop_ready (simulation st)"
    by blast
  from st(2) obtain loc where "main_loop_locals env (simulation st) = Inr loc"
    using locals_ready by blast
  from body_step [OF this, of k] obtain st' where
    "main_loop_body env k st = Inr st'"
    "simulation st' = reb_integrate env (simulation st) (t (simulation st) + 100 * 2 * pi)"
    by blast
  with st show ?case
    by (simp add: integrate_ready [OF assms])
qed

lemma main_loop_unroll:
  assumes "k \<le> 1000000"
  shows "main_loop env 0 (main_setup env) =
           (case main_state_at env k of
              Inl err \<Rightarrow> Inl err
            | Inr st \<Rightarrow> main_loop env k st)"
  using assms
proof (induction k)
  case 0
  show ?case by simp
next
  case (Suc k)
  then have lt: "k < 1000000" and ih: "main_loop env 0 (main_setup env) =
      (case main_state_at env k of Inl err \<Rightarrow> Inl err | Inr st \<Rightarrow> main_loop env k st)"
    by simp_all
  show ?case
  proof (cases "main_state_at env k")
    case (Inl err)
    then show ?thesis using ih by simp
  next
    case (Inr st)
    have "main_loop env k st =
        (case main_loop_body env k st of Inl err \<Rightarrow> Inl err | Inr st' \<Rightarrow> main_loop env (Suc k) st')"
      using lt by (subst main_loop.simps) (simp split: sum.splits)
    then show ?thesis using ih Inr by simp
  qed
qed

lemma main_loop_exit: "main_loop env 1000000 st = Inr st"
  by (subst main_loop.simps) simp

lemma main_final: "main env = main_state_at env 1000000"
  unfolding main_def
  by (subst main_loop_unroll [of 1000000]) (simp_all add: main_loop_exit split: sum.splits)

lemma state_at_clock:
  assumes "store_contract env" and "lands_on_target env"
    and "main_state_at env k = Inr st"
  shows "t (simulation st) = t (main_prepare env) + real k * (100 * 2 * pi)"
  using assms(3)
proof (induction k arbitrary: st)
  case 0
  then show ?case by (auto simp add: main_setup_def)
next
  case (Suc k)
  from state_at_ready [OF assms(1), of k] obtain st0 where
    st0: "main_state_at env k = Inr st0" "loop_ready (simulation st0)"
    by blast
  from st0(2) obtain loc where "main_loop_locals env (simulation st0) = Inr loc"
    using locals_ready by blast
  from body_step [OF this, of k] obtain st' where
    st': "main_loop_body env k st0 = Inr st'"
    "simulation st' = reb_integrate env (simulation st0) (t (simulation st0) + 100 * 2 * pi)"
    by blast
  have "st = st'" using Suc.prems st0(1) st'(1) by simp
  moreover have "t (simulation st') = t (simulation st0) + 100 * 2 * pi"
    using assms(2) st'(2) by (simp add: lands_on_target_def)
  ultimately show ?case
    using Suc.IH [OF st0(1)] by (simp add: algebra_simps)
qed

subsection \<open>The output record\<close>

lemma header_columns:
  "csv_fields header_format =
     [''t'', ''starx'', ''stary'', ''starz'', ''starvx'', ''starvy'', ''starvz'',
      ''star_sx'', ''star_sy'', ''star_sz'', ''a1'', ''i1'', ''e1'',
      ''s1x'', ''s1y'', ''s1z'', ''mag1'', ''pom1'', ''Om1'', ''f1'',
      ''p1x'', ''p1y'', ''p1z'', ''p1vx'', ''p1vy'', ''p1vz'',
      ''a2'', ''i2'', ''e2'', ''Om2'', ''pom2'']"
  by (simp add: csv_fields_def header_format_def)

lemma record_conversions: "csv_fields record_format = replicate 31 ''%.10f''"
  by (simp add: csv_fields_def record_format_def numeral_eq_Suc)

lemma record_args_length: "length (record_args sim loc) = 31"
  by (simp add: record_args_def)

lemma record_columns:
  assumes "main_loop_locals env sim = Inr loc"
  shows "record_by_column env sim = Some (zip (csv_fields header_format) (record_args sim loc))"
proof -
  from assms obtain vals where vals: "spin_lookups sim = Some vals"
    by (auto simp add: main_loop_locals_def split: if_splits option.splits)
  obtain v1 v2 v3 v4 v5 v6 where "vals = (v1, v2, v3, v4, v5, v6)"
    by (cases vals) auto
  with vals have gets:
    "rebx_get_param (ap (particles sim ! 0)) ''spin_sx'' = Some v1"
    "rebx_get_param (ap (particles sim ! 0)) ''spin_sy'' = Some v2"
    "rebx_get_param (ap (particles sim ! 0)) ''spin_sz'' = Some v3"
    "rebx_get_param (ap (particles sim ! 1)) ''spin_sx'' = Some v4"
    "rebx_get_param (ap (particles sim ! 1)) ''spin_sy'' = Some v5"
    "rebx_get_param (ap (particles sim ! 1)) ''spin_sz'' = Some v6"
    by (auto simp add: spin_lookups_def split: Option.bind_splits)
  have look: "spin_lookups sim = Some (v1, v2, v3, v4, v5, v6)"
    using gets by (simp add: spin_lookups_def)
  have spins: "spin_of (particles sim ! 0) = Some (v1, v2, v3)"
    "spin_of (particles sim ! 1) = Some (v4, v5, v6)"
    using gets by (simp_all add: spin_of_def)
  have loc: "loc = \<lparr> sun = particles sim ! 0, p1 = particles sim ! 1, pert = particles sim ! 2,
      star_sx = v1, star_sy = v2, star_sz = v3, sx1 = v4, sy1 = v5, sz1 = v6,
      o1 = reb_tools_particle_to_orbit env (G sim) (particles sim ! 1) (particles sim ! 0),
      a1 = a (reb_tools_particle_to_orbit env (G sim) (particles sim ! 1) (particles sim ! 0)),
      Om1 = Omega (reb_tools_particle_to_orbit env (G sim) (particles sim ! 1) (particles sim ! 0)),
      i1 = inc_orbit (reb_tools_particle_to_orbit env (G sim) (particles sim ! 1) (particles sim ! 0)),
      pom1 = pomega (reb_tools_particle_to_orbit env (G sim) (particles sim ! 1) (particles sim ! 0)),
      f1 = f (reb_tools_particle_to_orbit env (G sim) (particles sim ! 1) (particles sim ! 0)),
      e1 = e (reb_tools_particle_to_orbit env (G sim) (particles sim ! 1) (particles sim ! 0)),
      s1 = \<lparr> vec_x = v4, vec_y = v5, vec_z = v6 \<rparr>,
      com = reb_get_com_of_pair env (particles sim ! 0) (particles sim ! 1),
      o2 = reb_tools_particle_to_orbit env (G sim) (particles sim ! 2)
             (reb_get_com_of_pair env (particles sim ! 0) (particles sim ! 1)),
      a2 = a (reb_tools_particle_to_orbit env (G sim) (particles sim ! 2)
             (reb_get_com_of_pair env (particles sim ! 0) (particles sim ! 1))),
      Om2 = Omega (reb_tools_particle_to_orbit env (G sim) (particles sim ! 2)
             (reb_get_com_of_pair env (particles sim ! 0) (particles sim ! 1))),
      i2 = inc_orbit (reb_tools_particle_to_orbit env (G sim) (particles sim ! 2)
             (reb_get_com_of_pair env (particles sim ! 0) (particles sim ! 1))),
      pom2 = pomega (reb_tools_particle_to_orbit env (G sim) (particles sim ! 2)
             (reb_get_com_of_pair env (particles sim ! 0) (particles sim ! 1))),
      e2 = e (reb_tools_particle_to_orbit env (G sim) (particles sim ! 2)
             (reb_get_com_of_pair env (particles sim ! 0) (particles sim ! 1))),
      mag1 = sqrt (v4 * v4 + v5 * v5 + v6 * v6),
      ob1 = arccos (v6 / sqrt (v4 * v4 + v5 * v5 + v6 * v6)) * (180 / pi) \<rparr>"
    using assms by (simp add: main_loop_locals_def look Let_def split: if_splits)
  show ?thesis
    unfolding header_columns
    using spins by (simp add: record_by_column_def record_args_def loc Let_def)
qed

subsection \<open>The file, the step size and the planet's spin through the run\<close>

lemma state_at_step:
  assumes "store_contract env"
  shows "\<exists>st loc st'. main_state_at env k = Inr st
           \<and> main_loop_locals env (simulation st) = Inr loc
           \<and> main_state_at env (Suc k) = Inr st'
           \<and> simulation st' =
               reb_integrate env (simulation st) (t (simulation st) + 100 * 2 * pi)
           \<and> out_file st' = out_file st @ [(record_format, record_args (simulation st) loc)]"
proof -
  from state_at_ready [OF assms, of k] obtain st where
    st: "main_state_at env k = Inr st" "loop_ready (simulation st)"
    by blast
  from st(2) obtain loc where loc: "main_loop_locals env (simulation st) = Inr loc"
    using locals_ready by blast
  from body_step [OF loc, of k] st(1) loc show ?thesis
    by auto
qed

lemma state_at_file:
  assumes "store_contract env" and "main_state_at env k = Inr st"
  shows "\<exists>recs. out_file st = (header_format, []) # recs \<and> length recs = k"
  using assms(2)
proof (induction k arbitrary: st)
  case 0
  then show ?case by (auto simp add: main_setup_def)
next
  case (Suc k)
  from state_at_step [OF assms(1), of k] obtain st0 loc st' where
    step: "main_state_at env k = Inr st0" "main_state_at env (Suc k) = Inr st'"
      "out_file st' = out_file st0 @ [(record_format, record_args (simulation st0) loc)]"
    by blast
  from Suc.IH [OF step(1)] obtain recs where
    "out_file st0 = (header_format, []) # recs" "length recs = k"
    by blast
  moreover have "st = st'" using Suc.prems step(2) by simp
  ultimately show ?case using step(3) by simp
qed

lemma set_time_lag_step:
  assumes "step_contract env"
  shows "dt (rebx_set_time_lag env sim idx tau) = dt sim"
    and "integrator (rebx_set_time_lag env sim idx tau) = integrator sim"
    and "dt (reb_move_to_com env sim) = dt sim"
    and "integrator (reb_move_to_com env sim) = integrator sim"
    and "dt (align_simulation env sim) = dt sim"
    and "integrator (align_simulation env sim) = integrator sim"
  using assms by (simp_all add: step_contract_def keeps_step_def)

lemma init_ode_step:
  "dt (rebx_spin_initialize_ode sim eff) = dt sim"
  "integrator (rebx_spin_initialize_ode sim eff) = integrator sim"
  by (simp_all add: rebx_spin_initialize_ode_def split: option.splits)

lemma attach_step:
  "dt (main_attach env) = dt main_configure"
  "integrator (main_attach env) = integrator main_configure"
  by (simp_all add: main_attach_def rebx_add_force_def rebx_attach_def main_add_bodies_def
      main_add_planet_def main_add_star_def reb_add_fmt_def reb_add_def)

lemma prepare_step:
  assumes "step_contract env"
  shows "dt (main_prepare env) = dt main_configure"
    and "integrator (main_prepare env) = integrator main_configure"
  by (simp_all add: main_prepare_def main_planet_params_def main_star_params_def Let_def
      init_ode_step set_time_lag_step [OF assms] set_param_frame attach_step)

lemma spin_contract_keep:
  assumes "spin_contract env" and "idx < length (particles sim)"
  shows "spin_sq (particles (rebx_set_time_lag env sim i tau) ! idx) = spin_sq (particles sim ! idx)"
    and "spin_sq (particles (reb_move_to_com env sim) ! idx) = spin_sq (particles sim ! idx)"
    and "spin_sq (particles (align_simulation env sim) ! idx) = spin_sq (particles sim ! idx)"
  using assms by (simp_all add: spin_contract_def keeps_spin_length_def)

lemma spin_p_value: "spin_p = 876"
  by (simp add: spin_p_def spin_period_p_def)

lemma planet_spin_set:
  assumes "Suc 0 < length (particles sim)"
  shows "spin_of (particles
           (rebx_set_param_double
             (rebx_set_param_double
               (rebx_set_param_double sim 1 ''spin_sx'' vx0) 1 ''spin_sy'' vy0)
             1 ''spin_sz'' vz0) ! 1) = Some (vx0, vy0, vz0)"
  using assms by (simp add: spin_of_def set_param_get set_param_length)

lemma scaled_square_sum:
  fixes amp sn cs :: real
  shows "amp * sn * (amp * sn) + amp * cs * (amp * cs) = amp * amp * (sn * sn + cs * cs)"
  by (simp add: algebra_simps)

lemma planet_params_spin:
  assumes "store_contract env" and "spin_contract env"
  shows "spin_sq (particles (main_planet_params env) ! 1) = spin_p * spin_p"
proof -
  define s2 where "s2 =
    rebx_set_param_double
      (rebx_set_param_double (main_star_params env) 1 ''k2'' planet_k2)
      1 ''moi'' (0.25 * planet_m * planet_r * planet_r)"
  define s5 where "s5 =
    rebx_set_param_double
      (rebx_set_param_double
        (rebx_set_param_double s2 1 ''spin_sx'' (spin_p * sin theta_1 * sin phi_1))
        1 ''spin_sy'' (spin_p * sin theta_1 * cos phi_1))
      1 ''spin_sz'' (spin_p * cos theta_1)"
  have run: "main_planet_params env = rebx_set_time_lag env s5 1 planet_tau"
    by (simp add: main_planet_params_def Let_def s5_def s2_def)
  have len2: "length (particles s2) = 3"
    by (simp add: s2_def set_param_length star_params_length [OF assms(1)])
  have len5: "length (particles s5) = 3"
    by (simp add: s5_def set_param_length len2)
  have "spin_of (particles s5 ! 1) =
      Some (spin_p * sin theta_1 * sin phi_1, spin_p * sin theta_1 * cos phi_1,
            spin_p * cos theta_1)"
    unfolding s5_def by (rule planet_spin_set) (simp add: len2)
  then have "spin_sq (particles s5 ! 1) =
      spin_p * sin theta_1 * (spin_p * sin theta_1)
      + spin_p * cos theta_1 * (spin_p * cos theta_1)"
    by (simp add: spin_sq_def phi_1_def)
  also have "\<dots> = spin_p * spin_p * (sin theta_1 * sin theta_1 + cos theta_1 * cos theta_1)"
    by (rule scaled_square_sum)
  also have "sin theta_1 * sin theta_1 + cos theta_1 * cos theta_1 = 1"
    using sin_cos_squared_add [of theta_1] by (simp only: power2_eq_square)
  finally have set: "spin_sq (particles s5 ! 1) = spin_p * spin_p"
    by simp
  have "spin_sq (particles (rebx_set_time_lag env s5 1 planet_tau) ! 1) =
      spin_sq (particles s5 ! 1)"
    by (rule spin_contract_keep [OF assms(2)]) (simp add: len5)
  then show ?thesis
    by (simp only: run set)
qed

lemma prepare_spin:
  assumes "store_contract env" and "spin_contract env"
  shows "spin_sq (particles (main_prepare env) ! 1) = spin_p * spin_p"
proof -
  let ?moved = "reb_move_to_com env (main_planet_params env)"
  have len: "length (particles (main_planet_params env)) = 3"
    by (rule planet_params_length [OF assms(1)])
  have "spin_sq (particles (align_simulation env ?moved) ! 1) = spin_sq (particles ?moved ! 1)"
    by (rule spin_contract_keep [OF assms(2)])
       (simp add: store_contract_length [OF assms(1)] len)
  also have "\<dots> = spin_sq (particles (main_planet_params env) ! 1)"
    by (rule spin_contract_keep [OF assms(2)]) (simp add: len)
  finally show ?thesis
    by (simp only: main_prepare_def init_ode_particles planet_params_spin [OF assms])
qed

subsection \<open>The two instances meet the contracts\<close>

lemma clock_store: "store_contract clock_externals"
  by (simp add: store_contract_def retains_store_def clock_externals_def param_found_def)

lemma clock_lands: "lands_on_target clock_externals"
  by (simp add: lands_on_target_def clock_externals_def)

lemma clock_step: "step_contract clock_externals"
  by (simp add: step_contract_def keeps_step_def clock_externals_def)

lemma clock_spin: "spin_contract clock_externals"
  by (simp add: spin_contract_def keeps_spin_length_def clock_externals_def)

lemma quarter_turn_get:
  "rebx_get_param (ap (quarter_turn pt)) key \<noteq> None \<longleftrightarrow> rebx_get_param (ap pt) key \<noteq> None"
  by (auto simp add: quarter_turn_def get_update spin_of_def
      split: option.splits Option.bind_splits)

lemma quarter_turn_spin:
  "spin_of (quarter_turn pt) =
     (case spin_of pt of None \<Rightarrow> None | Some (sx, sy, sz) \<Rightarrow> Some (sx, - sz, sy))"
  by (auto simp add: quarter_turn_def get_update spin_of_def
      split: option.splits Option.bind_splits)

lemma quarter_turn_sq: "spin_sq (quarter_turn pt) = spin_sq pt"
  by (simp add: spin_sq_def quarter_turn_spin split: option.splits)

lemma turning_store: "store_contract turning_externals"
  using quarter_turn_get
  by (simp add: store_contract_def retains_store_def turning_externals_def clock_externals_def
      param_found_def)

lemma turning_spin: "spin_contract turning_externals"
  by (simp add: spin_contract_def keeps_spin_length_def turning_externals_def
      clock_externals_def quarter_turn_sq)

subsection \<open>The locals of the first iteration\<close>

lemma first_locals:
  assumes "store_contract env" and "spin_contract env"
  shows "\<exists>loc. main_loop_locals env (simulation (main_setup env)) = Inr loc
           \<and> mag1 loc = spin_p
           \<and> \<bar>vec_z (s1 loc)\<bar> \<le> spin_p
           \<and> ob1 loc = arccos (vec_z (s1 loc) / mag1 loc) * (180 / pi)"
proof -
  let ?sim = "main_prepare env"
  have ready: "loop_ready ?sim"
    by (rule prepare_ready [OF assms(1)])
  then obtain loc where loc: "main_loop_locals env ?sim = Inr loc"
    using locals_ready by blast
  have sq: "spin_sq (particles ?sim ! 1) = spin_p * spin_p"
    by (rule prepare_spin [OF assms])
  have s1: "spin_of (particles ?sim ! 1) = Some (vec_x (s1 loc), vec_y (s1 loc), vec_z (s1 loc))"
    and mag: "mag1 loc = sqrt (vec_x (s1 loc) * vec_x (s1 loc) + vec_y (s1 loc) * vec_y (s1 loc)
                               + vec_z (s1 loc) * vec_z (s1 loc))"
    and ob: "ob1 loc = arccos (vec_z (s1 loc) / mag1 loc) * (180 / pi)"
    using loc
    by (auto simp add: main_loop_locals_def spin_lookups_def spin_of_def Let_def
        split: if_splits option.splits Option.bind_splits)
  from sq s1 have sum: "vec_x (s1 loc) * vec_x (s1 loc) + vec_y (s1 loc) * vec_y (s1 loc)
      + vec_z (s1 loc) * vec_z (s1 loc) = spin_p * spin_p"
    by (simp add: spin_sq_def)
  have pos: "0 < spin_p"
    by (simp add: spin_p_value)
  have "mag1 loc = spin_p"
    using pos by (simp add: mag sum)
  moreover have "(vec_z (s1 loc))\<^sup>2 \<le> spin_p\<^sup>2"
  proof -
    have "0 \<le> vec_x (s1 loc) * vec_x (s1 loc)" and "0 \<le> vec_y (s1 loc) * vec_y (s1 loc)"
      by simp_all
    with sum show ?thesis
      unfolding power2_eq_square by linarith
  qed
  then have "\<bar>vec_z (s1 loc)\<bar> \<le> spin_p"
    using pos by (simp add: abs_le_square_iff [symmetric])
  ultimately show ?thesis
    using loc ob by (simp add: main_setup_def)
qed

subsection \<open>The clock through the run\<close>

lemma run_time:
  assumes "store_contract env" and "lands_on_target env"
  shows "time_advanced env = Some (10 ^ 8 * 2 * pi)"
proof -
  from state_at_ready [OF assms(1), of 1000000] obtain fin where
    fin: "main_state_at env 1000000 = Inr fin"
    by blast
  have "t (simulation fin) = t (main_prepare env) + real 1000000 * (100 * 2 * pi)"
    by (rule state_at_clock [OF assms fin])
  then show ?thesis
    using fin by (simp add: time_advanced_def main_final main_setup_def)
qed

lemma clock_at_value:
  assumes "store_contract env" and "lands_on_target env"
  shows "clock_at env k = Some (t (main_prepare env) + real k * (100 * 2 * pi))"
proof -
  from state_at_ready [OF assms(1), of k] obtain st where st: "main_state_at env k = Inr st"
    by blast
  from state_at_clock [OF assms st] st show ?thesis
    by (simp add: clock_at_def)
qed

lemma target_at_value:
  assumes "store_contract env" and "lands_on_target env"
  shows "target_at env k = Some (t (main_prepare env) + real k * (100 * 2 * pi) + 100 * 2 * pi)"
proof -
  from state_at_ready [OF assms(1), of k] obtain st where st: "main_state_at env k = Inr st"
    by blast
  from state_at_clock [OF assms st] st show ?thesis
    by (simp add: target_at_def)
qed

subsection \<open>The lookups of a ready state\<close>

lemma ready_lookups:
  assumes "loop_ready sim"
  shows "rebx_get_param (ap (particles sim ! 0)) ''spin_sx'' \<noteq> None
         \<and> rebx_get_param (ap (particles sim ! 0)) ''spin_sy'' \<noteq> None
         \<and> rebx_get_param (ap (particles sim ! 0)) ''spin_sz'' \<noteq> None
         \<and> rebx_get_param (ap (particles sim ! 1)) ''spin_sx'' \<noteq> None
         \<and> rebx_get_param (ap (particles sim ! 1)) ''spin_sy'' \<noteq> None
         \<and> rebx_get_param (ap (particles sim ! 1)) ''spin_sz'' \<noteq> None"
  using assms unfolding spin_lookups_found by (simp add: param_found_def)

section \<open>The claims\<close>

text \<open>
  Claim C1, as amended. The claim says that the loop advances the simulation time by
  \<open>tmax = 1e5 * 2 * pi\<close>. The loop makes 1000000 calls of \<^verbatim>\<open>reb_integrate\<close>, each to the
  current time plus \<open>100 * 2 * pi\<close>, and \<^verbatim>\<open>tmax\<close> is not used by it. With library routines
  that keep the store and an integrator that lands on the requested time, the run ends
  without a fault and the time advanced is \<open>10^8 * 2 * pi\<close>, a thousand times \<open>tmax\<close>.
\<close>

theorem main_time_advanced:
  assumes "store_contract env" and "lands_on_target env"
  shows "time_advanced env = Some (10 ^ 8 * 2 * pi)
         \<and> time_advanced env = Some (1000 * tmax)"
  using run_time [OF assms] by (simp add: tmax_def)

text \<open>The contracts are met by the clock-only library, for which the result holds.\<close>

theorem main_time_advanced_witness:
  "store_contract clock_externals \<and> lands_on_target clock_externals
   \<and> time_advanced clock_externals = Some (10 ^ 8 * 2 * pi)
   \<and> time_advanced clock_externals = Some (1000 * tmax)"
  using main_time_advanced [OF clock_store clock_lands] clock_store clock_lands by blast

text \<open>Claim C1 as stated fails: with the clock-only library, whose integrator lands
  exactly on every requested time, the time advanced by the loop is not \<open>tmax\<close>.\<close>

theorem main_time_is_not_tmax:
  "time_advanced clock_externals = Some (10 ^ 8 * 2 * pi)
   \<and> time_advanced clock_externals \<noteq> Some tmax"
  using run_time [OF clock_store clock_lands] by (simp add: tmax_def)

text \<open>
  Claim C2. The setup adds the star, the planet and the perturber, in this order, to the
  empty simulation, while the clock still stands at 0: the star has mass 1.1, the planet
  is built from the orbital elements with semi-major axis 5 and eccentricity 0.1, and
  the perturber from the elements with semi-major axis 1000, eccentricity 0 and
  inclination 85.6 degrees in radians.
\<close>

theorem main_initial_configuration:
  "particles (main_add_bodies env) =
     [star, reb_particle_from_fmt env main_add_star planet_elements,
      reb_particle_from_fmt env (main_add_planet env) perturber_elements]
   \<and> m star = 1.1
   \<and> map_of planet_elements ''a'' = Some 5
   \<and> map_of planet_elements ''e'' = Some 0.1
   \<and> map_of perturber_elements ''a'' = Some 1000
   \<and> map_of perturber_elements ''e'' = Some 0
   \<and> map_of perturber_elements ''inc'' = Some (85.6 * (pi / 180))
   \<and> t (main_add_bodies env) = 0"
  by (simp add: add_bodies_particles star_def zero_particle_def planet_elements_def
      perturber_elements_def reb_fmt_args_def planet_a_def planet_e_def perturber_a_def
      perturber_e_def perturber_inc_def main_add_bodies_def main_add_planet_def
      main_add_star_def reb_add_fmt_def reb_add_def main_configure_def
      reb_create_simulation_def)

text \<open>
  Claim C3 says that the mass passed for the planet is zero, as the comment on line 34
  ("a zero mass test particle") does. The value passed under the name \<open>m\<close> is \<open>planet_m\<close>,
  which is \<open>7.8 * 9.55e-4 = 0.007449\<close> and not zero.
\<close>

theorem planet_mass_is_not_zero:
  "map_of planet_elements ''m'' = Some planet_m \<and> planet_m = 7449 / 1000000 \<and> planet_m \<noteq> 0"
  by (simp add: planet_elements_def reb_fmt_args_def planet_m_def)

text \<open>
  Claim C4. With library routines that keep the store, the state in which the first
  iteration starts, that is before the first \<^verbatim>\<open>reb_integrate\<close>, has the three spin
  parameters \<open>spin_sx\<close>, \<open>spin_sy\<close>, \<open>spin_sz\<close> on particle 0 (the star) and on particle 1
  (the planet), and the spin ODE holds the vector built from the particles' spins.
\<close>

theorem main_spin_state_initialized:
  assumes "store_contract env"
  shows "main_state_at env 0 = Inr (main_setup env)
         \<and> param_found (simulation (main_setup env)) 0 ''spin_sx''
         \<and> param_found (simulation (main_setup env)) 0 ''spin_sy''
         \<and> param_found (simulation (main_setup env)) 0 ''spin_sz''
         \<and> param_found (simulation (main_setup env)) 1 ''spin_sx''
         \<and> param_found (simulation (main_setup env)) 1 ''spin_sy''
         \<and> param_found (simulation (main_setup env)) 1 ''spin_sz''
         \<and> (\<exists>rebx. extras (simulation (main_setup env)) = Some rebx
               \<and> spin_ode rebx = Some (spin_vector (particles (simulation (main_setup env)))))"
  using prepare_found [OF assms] prepare_ode [OF assms] by (simp add: main_setup_def)

text \<open>The clock-only library keeps the store, and the six parameters are found.\<close>

theorem main_spin_state_initialized_witness:
  "store_contract clock_externals
   \<and> param_found (simulation (main_setup clock_externals)) 0 ''spin_sx''
   \<and> param_found (simulation (main_setup clock_externals)) 0 ''spin_sy''
   \<and> param_found (simulation (main_setup clock_externals)) 0 ''spin_sz''
   \<and> param_found (simulation (main_setup clock_externals)) 1 ''spin_sx''
   \<and> param_found (simulation (main_setup clock_externals)) 1 ''spin_sy''
   \<and> param_found (simulation (main_setup clock_externals)) 1 ''spin_sz''"
  using main_spin_state_initialized [OF clock_store] clock_store by simp

text \<open>
  Claim C5. With library routines that keep the store, every iteration \<open>k\<close> of the loop
  starts in a state whose file holds the header line and \<open>k\<close> records, and appends exactly
  one record to it, so that the run ends with the header and 1000000 records. The header has 31 comma-separated columns, the record's format has 31
  conversions \<^verbatim>\<open>%.10f\<close> separated by commas, and the 31 values, paired with the header's
  column names in order, are the record the claim describes: time over \<open>2 * pi\<close>, the
  star's position, velocity and spin, \<open>a1, i1, e1\<close>, the planet's spin and its length,
  \<open>pom1, Om1, f1\<close>, the planet's position and velocity, and \<open>a2, i2, e2, Om2, pom2\<close>.
\<close>

theorem main_writes_one_record:
  assumes "store_contract env" and "k < 1000000"
  shows "\<exists>st loc st' recs.
           main_state_at env k = Inr st
           \<and> main_loop_locals env (simulation st) = Inr loc
           \<and> main_state_at env (Suc k) = Inr st'
           \<and> out_file st = (header_format, []) # recs \<and> length recs = k
           \<and> out_file st' = out_file st @ [(record_format, record_args (simulation st) loc)]
           \<and> length (csv_fields header_format) = 31
           \<and> csv_fields record_format = replicate (length (csv_fields header_format)) ''%.10f''
           \<and> length (record_args (simulation st) loc) = length (csv_fields header_format)
           \<and> record_by_column env (simulation st) =
               Some (zip (csv_fields header_format) (record_args (simulation st) loc))
           \<and> (\<exists>fin rows. main env = Inr fin
                 \<and> out_file fin = (header_format, []) # rows \<and> length rows = 1000000)"
proof -
  from state_at_ready [OF assms(1), of 1000000] obtain fin where
    fin: "main_state_at env 1000000 = Inr fin"
    by blast
  from state_at_file [OF assms(1) fin] obtain rows where
    "out_file fin = (header_format, []) # rows" "length rows = 1000000"
    by blast
  with fin have whole: "\<exists>fin rows. main env = Inr fin
      \<and> out_file fin = (header_format, []) # rows \<and> length rows = 1000000"
    by (simp add: main_final)
  from state_at_step [OF assms(1), of k] obtain st loc st' where
    step: "main_state_at env k = Inr st" "main_loop_locals env (simulation st) = Inr loc"
      "main_state_at env (Suc k) = Inr st'"
      "out_file st' = out_file st @ [(record_format, record_args (simulation st) loc)]"
    by blast
  from state_at_file [OF assms(1) step(1)] obtain recs where
    recs: "out_file st = (header_format, []) # recs" "length recs = k"
    by blast
  have cols: "length (csv_fields header_format) = 31"
    by (simp add: header_columns)
  show ?thesis
    using step recs record_columns [OF step(2)] whole
    by (simp add: cols record_conversions record_args_length)
qed

text \<open>The first iteration with the clock-only library: the file holds the header
  alone, and one record is appended.\<close>

theorem main_writes_one_record_witness:
  "store_contract clock_externals \<and> (0::nat) < 1000000
   \<and> (\<exists>st loc st'.
         main_state_at clock_externals 0 = Inr st
         \<and> main_loop_locals clock_externals (simulation st) = Inr loc
         \<and> main_state_at clock_externals (Suc 0) = Inr st'
         \<and> out_file st = [(header_format, [])]
         \<and> out_file st' = out_file st @ [(record_format, record_args (simulation st) loc)]
         \<and> record_by_column clock_externals (simulation st) =
             Some (zip (csv_fields header_format) (record_args (simulation st) loc)))"
  using main_writes_one_record [OF clock_store, of 0] clock_store by auto

text \<open>
  Claim C6. With library routines that keep the store, the run ends without a fault,
  and each of the 1000000 iterations starts in a state in which the six lookups of
  \<open>spin_sx\<close>, \<open>spin_sy\<close>, \<open>spin_sz\<close> on particle 0 and on particle 1 find a value: no
  dereference on lines 111 and 128 meets a \<^verbatim>\<open>NULL\<close>.
\<close>

theorem main_spin_lookups_found:
  assumes "store_contract env"
  shows "(\<exists>fin. main env = Inr fin)
         \<and> (\<forall>k<1000000. \<exists>st.
               main_state_at env k = Inr st
               \<and> rebx_get_param (ap (particles (simulation st) ! 0)) ''spin_sx'' \<noteq> None
               \<and> rebx_get_param (ap (particles (simulation st) ! 0)) ''spin_sy'' \<noteq> None
               \<and> rebx_get_param (ap (particles (simulation st) ! 0)) ''spin_sz'' \<noteq> None
               \<and> rebx_get_param (ap (particles (simulation st) ! 1)) ''spin_sx'' \<noteq> None
               \<and> rebx_get_param (ap (particles (simulation st) ! 1)) ''spin_sy'' \<noteq> None
               \<and> rebx_get_param (ap (particles (simulation st) ! 1)) ''spin_sz'' \<noteq> None)"
proof (intro conjI allI impI)
  from state_at_ready [OF assms, of 1000000] show "\<exists>fin. main env = Inr fin"
    by (auto simp add: main_final)
next
  fix k :: nat
  from state_at_ready [OF assms, of k] obtain st where
    st: "main_state_at env k = Inr st" "loop_ready (simulation st)"
    by blast
  from ready_lookups [OF st(2)] st(1)
  show "\<exists>st. main_state_at env k = Inr st
          \<and> rebx_get_param (ap (particles (simulation st) ! 0)) ''spin_sx'' \<noteq> None
          \<and> rebx_get_param (ap (particles (simulation st) ! 0)) ''spin_sy'' \<noteq> None
          \<and> rebx_get_param (ap (particles (simulation st) ! 0)) ''spin_sz'' \<noteq> None
          \<and> rebx_get_param (ap (particles (simulation st) ! 1)) ''spin_sx'' \<noteq> None
          \<and> rebx_get_param (ap (particles (simulation st) ! 1)) ''spin_sy'' \<noteq> None
          \<and> rebx_get_param (ap (particles (simulation st) ! 1)) ''spin_sz'' \<noteq> None"
    by blast
qed

text \<open>The last iteration with the clock-only library.\<close>

theorem main_spin_lookups_found_witness:
  "store_contract clock_externals
   \<and> (\<exists>fin. main clock_externals = Inr fin)
   \<and> (\<exists>st. main_state_at clock_externals 999999 = Inr st
         \<and> rebx_get_param (ap (particles (simulation st) ! 0)) ''spin_sx'' \<noteq> None
         \<and> rebx_get_param (ap (particles (simulation st) ! 0)) ''spin_sy'' \<noteq> None
         \<and> rebx_get_param (ap (particles (simulation st) ! 0)) ''spin_sz'' \<noteq> None
         \<and> rebx_get_param (ap (particles (simulation st) ! 1)) ''spin_sx'' \<noteq> None
         \<and> rebx_get_param (ap (particles (simulation st) ! 1)) ''spin_sy'' \<noteq> None
         \<and> rebx_get_param (ap (particles (simulation st) ! 1)) ''spin_sz'' \<noteq> None)"
proof -
  have "(999999::nat) < 1000000" by simp
  with main_spin_lookups_found [OF clock_store] clock_store show ?thesis
    by blast
qed

text \<open>
  Claim C8. Lines 23 and 24 set the step to \<open>pi * 1e-1\<close> and the integrator to IAS15, an
  adaptive scheme of order at least 7; when the library routines called during the setup
  leave the step and the integrator choice alone, these are the values with which the
  first iteration, and so the first \<^verbatim>\<open>reb_integrate\<close>, starts.
\<close>

theorem main_step_and_integrator:
  assumes "step_contract env"
  shows "dt main_configure = pi * (1 / 10)
         \<and> integrator main_configure = REB_INTEGRATOR_IAS15
         \<and> main_state_at env 0 = Inr (main_setup env)
         \<and> dt (simulation (main_setup env)) = pi * (1 / 10)
         \<and> integrator (simulation (main_setup env)) = REB_INTEGRATOR_IAS15
         \<and> integrator_adaptive (integrator (simulation (main_setup env)))
         \<and> 7 \<le> integrator_order (integrator (simulation (main_setup env)))"
  by (simp add: main_setup_def prepare_step [OF assms] main_configure_def)

text \<open>The clock-only library leaves the step alone.\<close>

theorem main_step_and_integrator_witness:
  "step_contract clock_externals
   \<and> dt (simulation (main_setup clock_externals)) = pi * (1 / 10)
   \<and> integrator (simulation (main_setup clock_externals)) = REB_INTEGRATOR_IAS15
   \<and> integrator_adaptive (integrator (simulation (main_setup clock_externals)))
   \<and> 7 \<le> integrator_order (integrator (simulation (main_setup clock_externals)))"
  using main_step_and_integrator [OF clock_step] clock_step by blast

text \<open>
  Claim C9. With library routines that keep the store and an integrator that lands on
  the requested time: every iteration passes the current time plus \<open>100 * 2 * pi\<close> to
  \<^verbatim>\<open>reb_integrate\<close>; the targets of the iterations increase strictly; and the clock, read
  at the start of each iteration and after the last, never decreases.
\<close>

theorem main_clock_monotone:
  assumes "store_contract env" and "lands_on_target env"
  shows "(\<forall>k<1000000. \<exists>st st'.
            main_state_at env k = Inr st
            \<and> main_state_at env (Suc k) = Inr st'
            \<and> simulation st' =
                reb_integrate env (simulation st) (t (simulation st) + 100 * 2 * pi)
            \<and> target_at env k = Some (t (simulation st) + 100 * 2 * pi))
         \<and> (\<forall>j k. j < k \<longrightarrow> k < 1000000 \<longrightarrow>
               (\<exists>tj tk. target_at env j = Some tj \<and> target_at env k = Some tk \<and> tj < tk))
         \<and> (\<forall>j k. j \<le> k \<longrightarrow> k \<le> 1000000 \<longrightarrow>
               (\<exists>cj ck. clock_at env j = Some cj \<and> clock_at env k = Some ck \<and> cj \<le> ck))"
proof (intro conjI allI impI)
  fix k :: nat
  from state_at_step [OF assms(1), of k] obtain st st' where
    "main_state_at env k = Inr st" "main_state_at env (Suc k) = Inr st'"
    "simulation st' = reb_integrate env (simulation st) (t (simulation st) + 100 * 2 * pi)"
    by blast
  then show "\<exists>st st'. main_state_at env k = Inr st
      \<and> main_state_at env (Suc k) = Inr st'
      \<and> simulation st' = reb_integrate env (simulation st) (t (simulation st) + 100 * 2 * pi)
      \<and> target_at env k = Some (t (simulation st) + 100 * 2 * pi)"
    by (simp add: target_at_def)
next
  fix j k :: nat
  assume "j < k"
  then have "real j * (100 * 2 * pi) < real k * (100 * 2 * pi)"
    by simp
  then show "\<exists>tj tk. target_at env j = Some tj \<and> target_at env k = Some tk \<and> tj < tk"
    by (simp add: target_at_value [OF assms])
next
  fix j k :: nat
  assume "j \<le> k"
  then have "real j * (100 * 2 * pi) \<le> real k * (100 * 2 * pi)"
    by simp
  then show "\<exists>cj ck. clock_at env j = Some cj \<and> clock_at env k = Some ck \<and> cj \<le> ck"
    by (simp add: clock_at_value [OF assms])
qed

text \<open>The first and the last iteration with the clock-only library.\<close>

theorem main_clock_monotone_witness:
  "store_contract clock_externals \<and> lands_on_target clock_externals
   \<and> (\<exists>tj tk. target_at clock_externals 0 = Some tj
         \<and> target_at clock_externals 999999 = Some tk \<and> tj < tk)
   \<and> (\<exists>cj ck. clock_at clock_externals 0 = Some cj
         \<and> clock_at clock_externals 1000000 = Some ck \<and> cj \<le> ck)"
proof -
  have "(0::nat) < 999999" "(999999::nat) < 1000000" "(0::nat) \<le> 1000000"
    "(1000000::nat) \<le> 1000000"
    by simp_all
  with main_clock_monotone [OF clock_store clock_lands] clock_store clock_lands
  show ?thesis
    by blast
qed

text \<open>
  Claim C10. With library routines that keep the store and the length of every spin
  vector during the setup, the first iteration computes \<open>mag1 = spin_p = 876\<close> for the
  planet, which is positive, the quotient \<open>s1.z / mag1\<close> passed to \<^verbatim>\<open>acos\<close> lies
  between \<open>-1\<close> and \<open>1\<close>, and the obliquity \<open>ob1\<close> lies between 0 and 180 degrees. The z
  component that line 80 sets, \<open>spin_p * cos theta_1\<close>, is positive.
\<close>

theorem main_first_spin_magnitude:
  assumes "store_contract env" and "spin_contract env"
  shows "main_state_at env 0 = Inr (main_setup env)
         \<and> (\<exists>loc. main_loop_locals env (simulation (main_setup env)) = Inr loc
               \<and> mag1 loc = 876
               \<and> 0 < mag1 loc
               \<and> - 1 \<le> vec_z (s1 loc) / mag1 loc
               \<and> vec_z (s1 loc) / mag1 loc \<le> 1
               \<and> ob1 loc = arccos (vec_z (s1 loc) / mag1 loc) * (180 / pi)
               \<and> 0 \<le> ob1 loc \<and> ob1 loc \<le> 180)
         \<and> 0 < spin_p * cos theta_1"
proof -
  from first_locals [OF assms] obtain loc where
    loc: "main_loop_locals env (simulation (main_setup env)) = Inr loc"
      "mag1 loc = spin_p" "\<bar>vec_z (s1 loc)\<bar> \<le> spin_p"
      "ob1 loc = arccos (vec_z (s1 loc) / mag1 loc) * (180 / pi)"
    by blast
  have mag: "mag1 loc = 876"
    using loc(2) by (simp add: spin_p_value)
  have "\<bar>vec_z (s1 loc) / 876\<bar> \<le> 1"
    using loc(3) by (simp add: spin_p_value)
  then have lo: "- 1 \<le> vec_z (s1 loc) / mag1 loc" and hi: "vec_z (s1 loc) / mag1 loc \<le> 1"
    by (simp_all add: abs_le_iff mag)
  have "0 \<le> arccos (vec_z (s1 loc) / mag1 loc)"
    and "arccos (vec_z (s1 loc) / mag1 loc) \<le> pi"
    using lo hi by (rule arccos_lbound, rule arccos_ubound)
  then have "0 \<le> arccos (vec_z (s1 loc) / mag1 loc) * (180 / pi)"
    and "arccos (vec_z (s1 loc) / mag1 loc) * (180 / pi) \<le> 180"
    by (simp_all add: field_simps)
  then have angle: "0 \<le> ob1 loc" "ob1 loc \<le> 180"
    by (simp_all only: loc(4))
  have "0 < cos theta_1"
    by (rule cos_gt_zero_pi) (simp_all add: theta_1_def)
  then have "0 < spin_p * cos theta_1"
    by (simp add: spin_p_value)
  with loc(1,4) mag lo hi angle show ?thesis
    by simp
qed

text \<open>The library whose alignment rotates every spin by a quarter turn meets both
  contracts, and the first iteration computes \<open>mag1 = 876\<close> there too.\<close>

theorem main_first_spin_magnitude_witness:
  "store_contract turning_externals \<and> spin_contract turning_externals
   \<and> (\<exists>loc. main_loop_locals turning_externals (simulation (main_setup turning_externals))
               = Inr loc
         \<and> mag1 loc = 876
         \<and> 0 < mag1 loc
         \<and> - 1 \<le> vec_z (s1 loc) / mag1 loc
         \<and> vec_z (s1 loc) / mag1 loc \<le> 1
         \<and> 0 \<le> ob1 loc \<and> ob1 loc \<le> 180)"
  using main_first_spin_magnitude [OF turning_store turning_spin] turning_store turning_spin
  by blast

end
